theory Spec2Isabelle
  imports Complex_Main
begin

section \<open>Bulk creation of drafts (zerver/views/drafts.py)\<close>

text \<open>
  The view \<open>create_drafts\<close> takes a batch of draft dictionaries that the request
  layer has already checked with \<open>draft_dict_validator\<close>, normalizes each one with
  \<open>further_validated_draft_dict\<close> and writes all of them with one \<open>bulk_create\<close>.

  Conventions of the embedding:
  \<^item> a Python exception is a value \<open>Inl e\<close> of a sum type; every function that can raise
    returns \<open>error + 'a\<close>;
  \<^item> the effects of the view are threaded through an explicit \<open>state\<close>: the number of
    readings of the clock, the log of the calls made to the recipient-resolution
    collaborators and to the store, and the Draft table itself;
  \<^item> a timestamp (a Python int or float) is an exact rational number; \<open>str\<close> is
    \<open>string\<close>;
  \<^item> functions imported from other modules of the repository are fields of an
    environment \<open>env\<close>, or definitions marked as modelled from the specification.
\<close>

subsection \<open>Data\<close>

datatype error = JsonableError string

datatype realm = Realm int

record user_profile =
  user_id :: int
  user_realm :: realm

text \<open>A recipient is an opaque reference (the row of a stream or of a set of users).\<close>

datatype recipient = Recipient int

text \<open>An absolute point in time, as produced by \<open>timestamp_to_datetime\<close>.\<close>

datatype datetime = Datetime rat

text \<open>
  A draft dictionary after \<open>draft_dict_validator\<close>: the keys \<open>type\<close>, \<open>to\<close>, \<open>topic\<close>
  and \<open>content\<close> are present with the types below, \<open>timestamp\<close> is optional.
\<close>

record draft_dict =
  dd_type :: string
  dd_to :: "int list"
  dd_topic :: string
  dd_content :: string
  dd_timestamp :: "rat option"

text \<open>The dictionary returned by \<open>further_validated_draft_dict\<close>.\<close>

record valid_draft_dict =
  vd_recipient :: "recipient option"
  vd_topic :: string
  vd_content :: string
  vd_last_edit_time :: datetime

text \<open>A \<open>Draft\<close> object as the view constructs it (its id is assigned by the store).\<close>

record draft =
  draft_user_profile :: user_profile
  draft_recipient :: "recipient option"
  draft_topic :: string
  draft_content :: string
  draft_last_edit_time :: datetime

text \<open>The calls to collaborators that the state logs, in the order they are made.\<close>

datatype call =
    AccessStreamById user_profile int
  | GetUserProfilesByIds "int list" realm
  | RecipientForUserProfiles "user_profile list" user_profile
  | BulkCreate "draft list"

record state =
  time_calls :: nat
  calls :: "call list"
  draft_table :: "(int \<times> draft) list"
  next_id :: int

text \<open>What the stream-access collaborator finds for a user and a stream id.\<close>

datatype stream_access = NotFound | AccessDenied | Found recipient

text \<open>
  What the view takes from its surroundings; none of it is among the sources, so it is
  a parameter of the model. \<open>truncate_body\<close> and \<open>truncate_topic\<close> cut a text to the platform's limits;
  \<open>time_time e n\<close> is the reading of the clock at its \<open>n\<close>-th call;
  \<open>timestamp_to_datetime\<close> converts seconds since the epoch to a point in time.
  \<open>set_order e xs\<close> is the order in which Python iterates over \<open>set(xs)\<close>.
  \<open>lookup_user e i r\<close> is the user with id \<open>i\<close> visible from realm \<open>r\<close>, if any.
  \<open>recipient_for_user_profiles\<close> returns \<open>Inl m\<close> when it raises a \<open>ValidationError\<close>
  whose first message is \<open>m\<close>.
\<close>

record env =
  truncate_body :: "string \<Rightarrow> string"
  truncate_topic :: "string \<Rightarrow> string"
  time_time :: "nat \<Rightarrow> rat"
  timestamp_to_datetime :: "rat \<Rightarrow> datetime"
  resolve_stream :: "user_profile \<Rightarrow> int \<Rightarrow> stream_access"
  set_order :: "int list \<Rightarrow> int list"
  lookup_user :: "int \<Rightarrow> realm \<Rightarrow> user_profile option"
  recipient_for_user_profiles ::
    "user_profile list \<Rightarrow> bool \<Rightarrow> user_profile option \<Rightarrow> user_profile \<Rightarrow> string + recipient"

subsection \<open>Structural validation\<close>

definition VALID_DRAFT_TYPES :: "string set" where
  "VALID_DRAFT_TYPES = {'''', ''private'', ''stream''}"

text \<open>
  Modelled from the spec: the checkers of \<open>zerver.lib.validator\<close> that
  \<open>draft_dict_validator\<close> combines are not among the sources. The types of the keys
  are those of the record \<open>draft_dict\<close>; what is left of the structural check is that
  \<open>type\<close> is one of the three literals and that \<open>content\<close> is a non-empty string.
\<close>

definition draft_dict_validator :: "draft_dict \<Rightarrow> bool" where
  "draft_dict_validator d \<longleftrightarrow> dd_type d \<in> VALID_DRAFT_TYPES \<and> dd_content d \<noteq> []"

subsection \<open>Python built-ins\<close>

text \<open>A null byte occurs in a string: \<open>"\x00" in s\<close>.\<close>

definition has_null :: "string \<Rightarrow> bool" where
  "has_null s \<longleftrightarrow> CHR 0x00 \<in> set s"

text \<open>Rounding to the nearest integer, ties to the even one, as Python's \<open>round\<close> does.\<close>

definition round_half_even :: "rat \<Rightarrow> int" where
  "round_half_even q =
     (let f = \<lfloor>q\<rfloor>; r = q - of_int f in
      if r < 1 / 2 then f
      else if 1 / 2 < r then f + 1
      else if even f then f else f + 1)"

text \<open>
  \<open>round(x, 6)\<close>: the multiple of \<open>10\<^sup>-\<^sup>6\<close> nearest to \<open>x\<close>. On a float Python returns
  the double nearest to that decimal, which has the same sign and is zero exactly when
  the decimal is; on an int it returns the int, as the model does.
\<close>

definition round6 :: "rat \<Rightarrow> rat" where
  "round6 x = of_int (round_half_even (x * 1000000)) / 1000000"

text \<open>\<open>str(n)\<close> for an integer: its decimal digits, with a minus sign when negative.\<close>

fun str_nat :: "nat \<Rightarrow> string" where
  "str_nat n =
     (if n < 10 then [''0123456789'' ! n]
      else str_nat (n div 10) @ [''0123456789'' ! (n mod 10)])"

declare str_nat.simps [simp del]

definition str_int :: "int \<Rightarrow> string" where
  "str_int i = (if i < 0 then CHR ''-'' # str_nat (nat (- i)) else str_nat (nat i))"

subsection \<open>Collaborators with effects\<close>

text \<open>\<open>time.time()\<close>: reads the clock, which counts the reading.\<close>

definition time_time_call :: "env \<Rightarrow> state \<Rightarrow> rat \<times> state" where
  "time_time_call e s = (time_time e (time_calls s), s\<lparr>time_calls := Suc (time_calls s)\<rparr>)"

definition log_call :: "call \<Rightarrow> state \<Rightarrow> state" where
  "log_call c s = s\<lparr>calls := calls s @ [c]\<rparr>"

text \<open>
  Modelled from the spec: \<open>access_stream_by_id\<close> of \<open>zerver.lib.streams\<close> is not among
  the sources. The stream access resolver returns the stream with its recipient, or
  fails because the stream does not exist or because the requester may not access
  it; both failures are surfaced as the error "Invalid stream id". Of the triple
  \<open>(stream, recipient, sub)\<close> the caller uses the recipient only, which is what the
  model returns.
\<close>

definition access_stream_by_id ::
  "env \<Rightarrow> user_profile \<Rightarrow> int \<Rightarrow> state \<Rightarrow> (error + recipient) \<times> state" where
  "access_stream_by_id e user_profile stream_id s =
     (case resolve_stream e user_profile stream_id of
        NotFound \<Rightarrow> Inl (JsonableError ''Invalid stream id'')
      | AccessDenied \<Rightarrow> Inl (JsonableError ''Invalid stream id'')
      | Found r \<Rightarrow> Inr r,
      log_call (AccessStreamById user_profile stream_id) s)"

text \<open>
  Modelled from the spec: \<open>get_user_profiles_by_ids\<close> of \<open>zerver.lib.addressee\<close> is not
  among the sources. The user directory resolver resolves each id in the order it
  is given them and fails with "Invalid user ID <id>" at the first id that is not a
  visible user.
\<close>

fun resolve_users :: "env \<Rightarrow> int list \<Rightarrow> realm \<Rightarrow> error + user_profile list" where
  "resolve_users e [] r = Inr []"
| "resolve_users e (i # ids) r =
     (case lookup_user e i r of
        None \<Rightarrow> Inl (JsonableError (''Invalid user ID '' @ str_int i))
      | Some p \<Rightarrow>
          (case resolve_users e ids r of
             Inl err \<Rightarrow> Inl err
           | Inr ps \<Rightarrow> Inr (p # ps)))"

definition get_user_profiles_by_ids ::
  "env \<Rightarrow> int list \<Rightarrow> realm \<Rightarrow> state \<Rightarrow> (error + user_profile list) \<times> state" where
  "get_user_profiles_by_ids e user_ids r s =
     (resolve_users e user_ids r, log_call (GetUserProfilesByIds user_ids r) s)"

text \<open>The call of \<open>recipient_for_user_profiles\<close>, logged.\<close>

definition recipient_for_user_profiles_call ::
  "env \<Rightarrow> user_profile list \<Rightarrow> bool \<Rightarrow> user_profile option \<Rightarrow> user_profile \<Rightarrow> state
    \<Rightarrow> (string + recipient) \<times> state" where
  "recipient_for_user_profiles_call e user_profiles forwarded forwarder sender s =
     (recipient_for_user_profiles e user_profiles forwarded forwarder sender,
      log_call (RecipientForUserProfiles user_profiles sender) s)"

text \<open>
  Modelled from the spec: \<open>Draft.objects.bulk_create\<close> is the store's atomic batch
  insert returning generated identifiers. One call appends all the rows, in order,
  with consecutive fresh ids, and returns the created rows.
\<close>

definition bulk_create :: "draft list \<Rightarrow> state \<Rightarrow> (int \<times> draft) list \<times> state" where
  "bulk_create draft_objects s =
     (let created = zip (map (\<lambda>k. next_id s + int k) [0..<length draft_objects]) draft_objects
      in (created,
          s\<lparr>calls := calls s @ [BulkCreate draft_objects],
            draft_table := draft_table s @ created,
            next_id := next_id s + int (length draft_objects)\<rparr>))"

subsection \<open>further_validated_draft_dict\<close>

definition further_validated_draft_dict ::
  "env \<Rightarrow> draft_dict \<Rightarrow> user_profile \<Rightarrow> state \<Rightarrow> (error + valid_draft_dict) \<times> state" where
  "further_validated_draft_dict e draft_dict user_profile s =
     (let content = truncate_body e (dd_content draft_dict) in
      if has_null content then
        (Inl (JsonableError ''Content must not contain null bytes''), s)
      else
        let (now, s1) = time_time_call e s;
            timestamp = (case dd_timestamp draft_dict of None \<Rightarrow> now | Some t \<Rightarrow> t);
            timestamp = round6 timestamp
        in
        if timestamp < 0 then
          (Inl (JsonableError ''Timestamp must not be negative.''), s1)
        else
          let last_edit_time = timestamp_to_datetime e timestamp;
              to = dd_to draft_dict
          in
          if dd_type draft_dict = ''stream'' then
            let topic = truncate_topic e (dd_topic draft_dict) in
            if has_null topic then
              (Inl (JsonableError ''Topic must not contain null bytes''), s1)
            else if length to \<noteq> 1 then
              (Inl (JsonableError ''Must specify exactly 1 stream ID for stream messages''), s1)
            else
              (case access_stream_by_id e user_profile (to ! 0) s1 of
                 (Inl err, s2) \<Rightarrow> (Inl err, s2)
               | (Inr recipient, s2) \<Rightarrow>
                   (Inr \<lparr>vd_recipient = Some recipient, vd_topic = topic,
                         vd_content = content, vd_last_edit_time = last_edit_time\<rparr>, s2))
          else if dd_type draft_dict = ''private'' \<and> length to \<noteq> 0 then
            (case get_user_profiles_by_ids e (set_order e to) (user_realm user_profile) s1 of
               (Inl err, s2) \<Rightarrow> (Inl err, s2)
             | (Inr to_users, s2) \<Rightarrow>
                 (case recipient_for_user_profiles_call e to_users False None user_profile s2 of
                    (Inl msg, s3) \<Rightarrow> (Inl (JsonableError msg), s3)
                  | (Inr recipient, s3) \<Rightarrow>
                      (Inr \<lparr>vd_recipient = Some recipient, vd_topic = [],
                            vd_content = content, vd_last_edit_time = last_edit_time\<rparr>, s3)))
          else
            (Inr \<lparr>vd_recipient = None, vd_topic = [],
                  vd_content = content, vd_last_edit_time = last_edit_time\<rparr>, s1))"

subsection \<open>create_drafts\<close>

text \<open>
  The \<open>for\<close> loop of \<open>create_drafts\<close>: \<open>draft_objects\<close> is the list built so far. The
  first exception leaves the loop (and the view).
\<close>

fun draft_loop ::
  "env \<Rightarrow> user_profile \<Rightarrow> draft_dict list \<Rightarrow> draft list \<Rightarrow> state \<Rightarrow> (error + draft list) \<times> state" where
  "draft_loop e user_profile [] draft_objects s = (Inr draft_objects, s)"
| "draft_loop e user_profile (draft_dict # rest) draft_objects s =
     (case further_validated_draft_dict e draft_dict user_profile s of
        (Inl err, s1) \<Rightarrow> (Inl err, s1)
      | (Inr valid_draft_dict, s1) \<Rightarrow>
          draft_loop e user_profile rest
            (draft_objects @
              [\<lparr>draft_user_profile = user_profile,
                draft_recipient = vd_recipient valid_draft_dict,
                draft_topic = vd_topic valid_draft_dict,
                draft_content = vd_content valid_draft_dict,
                draft_last_edit_time = vd_last_edit_time valid_draft_dict\<rparr>]) s1)"

text \<open>The view: \<open>Inr ids\<close> is the response \<open>json_success({"ids": ids})\<close>.\<close>

definition create_drafts ::
  "env \<Rightarrow> user_profile \<Rightarrow> draft_dict list \<Rightarrow> state \<Rightarrow> (error + int list) \<times> state" where
  "create_drafts e user_profile draft_dicts s =
     (case draft_loop e user_profile draft_dicts [] s of
        (Inl err, s1) \<Rightarrow> (Inl err, s1)
      | (Inr draft_objects, s1) \<Rightarrow>
          (let (created_draft_objects, s2) = bulk_create draft_objects s1;
               draft_ids = map fst created_draft_objects
           in (Inr draft_ids, s2)))"

subsection \<open>Notions used to state the properties\<close>

text \<open>The state after one reading of the clock.\<close>

definition tick :: "state \<Rightarrow> state" where
  "tick s = s\<lparr>time_calls := Suc (time_calls s)\<rparr>"

text \<open>
  The timestamp a descriptor is normalized to in state \<open>s\<close>: the supplied one if
  present, otherwise the reading of the clock, rounded to 6 decimal digits.
\<close>

definition normalized_timestamp :: "env \<Rightarrow> draft_dict \<Rightarrow> state \<Rightarrow> rat" where
  "normalized_timestamp e d s =
     round6 (case dd_timestamp d of None \<Rightarrow> time_time e (time_calls s) | Some t \<Rightarrow> t)"

text \<open>The descriptor passes the content check and the timestamp check in state \<open>s\<close>.\<close>

definition passes_checks :: "env \<Rightarrow> draft_dict \<Rightarrow> state \<Rightarrow> bool" where
  "passes_checks e d s \<longleftrightarrow>
     \<not> has_null (truncate_body e (dd_content d)) \<and> \<not> normalized_timestamp e d s < 0"

text \<open>The batches written to the store so far, oldest first.\<close>

fun bulk_writes :: "call list \<Rightarrow> draft list list" where
  "bulk_writes [] = []"
| "bulk_writes (BulkCreate ds # cs) = ds # bulk_writes cs"
| "bulk_writes (c # cs) = bulk_writes cs"

text \<open>The \<open>Draft\<close> object the loop builds from a normalized record.\<close>

definition draft_of :: "user_profile \<Rightarrow> valid_draft_dict \<Rightarrow> draft" where
  "draft_of u v =
     \<lparr>draft_user_profile = u, draft_recipient = vd_recipient v, draft_topic = vd_topic v,
      draft_content = vd_content v, draft_last_edit_time = vd_last_edit_time v\<rparr>"

text \<open>
  \<open>set_order e xs\<close> enumerates \<open>set(xs)\<close>: each element of \<open>xs\<close> once, in some order.
\<close>

definition iterates_set :: "env \<Rightarrow> int list \<Rightarrow> bool" where
  "iterates_set e xs \<longleftrightarrow> distinct (set_order e xs) \<and> set (set_order e xs) = set xs"

text \<open>
  Normalization of one descriptor in state \<open>s\<close> succeeds: it returns a record, it does
  not raise.
\<close>

definition normalizes :: "env \<Rightarrow> user_profile \<Rightarrow> draft_dict \<Rightarrow> state \<Rightarrow> bool" where
  "normalizes e u d s \<longleftrightarrow>
     (case fst (further_validated_draft_dict e d u s) of Inl err \<Rightarrow> False | Inr v \<Rightarrow> True)"

text \<open>
  The state after the descriptors \<open>ds\<close> have been normalized one after the other,
  starting in \<open>s\<close>: the normalizations read the clock and call the collaborators.
\<close>

fun state_after :: "env \<Rightarrow> user_profile \<Rightarrow> draft_dict list \<Rightarrow> state \<Rightarrow> state" where
  "state_after e u [] s = s"
| "state_after e u (d # ds) s =
     state_after e u ds (snd (further_validated_draft_dict e d u s))"

text \<open>
  Every descriptor of the batch normalizes successfully, each in the state that the
  normalizations of the descriptors before it have left.
\<close>

definition all_normalize :: "env \<Rightarrow> user_profile \<Rightarrow> draft_dict list \<Rightarrow> state \<Rightarrow> bool" where
  "all_normalize e u ds s \<longleftrightarrow>
     (\<forall>k < length ds. normalizes e u (ds ! k) (state_after e u (take k ds) s))"

subsection \<open>An example realm\<close>

text \<open>
  Content is cut at 10 characters and topics at 5; stream 1 is accessible, stream 2
  exists but is private, no other stream exists; users 7 and 8 exist; sets of ids
  are iterated in increasing order.
\<close>

definition example_env :: env where
  "example_env =
     \<lparr>truncate_body = take 10,
      truncate_topic = take 5,
      time_time = (\<lambda>n. 1595479019 + of_nat n),
      timestamp_to_datetime = Datetime,
      resolve_stream =
        (\<lambda>u i. if i = 1 then Found (Recipient 100) else if i = 2 then AccessDenied else NotFound),
      set_order = (\<lambda>xs. sort (remdups xs)),
      lookup_user =
        (\<lambda>i r. if i = 7 \<or> i = 8 then Some \<lparr>user_id = i, user_realm = r\<rparr> else None),
      recipient_for_user_profiles =
        (\<lambda>users forwarded forwarder sender. Inr (Recipient (sum_list (map user_id users))))\<rparr>"

definition hamlet :: user_profile where
  "hamlet = \<lparr>user_id = 10, user_realm = Realm 1\<rparr>"

definition initial_state :: state where
  "initial_state = \<lparr>time_calls = 0, calls = [], draft_table = [], next_id = 1\<rparr>"

text \<open>Two descriptors of the example realm, varied below with record updates.\<close>

definition stream_draft :: draft_dict where
  "stream_draft =
     \<lparr>dd_type = ''stream'', dd_to = [1], dd_topic = ''sync drafts'',
      dd_content = ''hello'', dd_timestamp = Some (15954790194391587 / 10000000)\<rparr>"

definition private_draft :: draft_dict where
  "private_draft =
     \<lparr>dd_type = ''private'', dd_to = [8, 7, 8], dd_topic = ''ignored'',
      dd_content = ''hi'', dd_timestamp = None\<rparr>"

section \<open>Properties\<close>

subsection \<open>The paths of further_validated_draft_dict\<close>

lemma bulk_writes_append: "bulk_writes (cs @ cs') = bulk_writes cs @ bulk_writes cs'"
  by (induction cs rule: bulk_writes.induct) simp_all

lemma fvdd_content_error:
  "has_null (truncate_body e (dd_content d)) \<Longrightarrow>
   further_validated_draft_dict e d u s =
     (Inl (JsonableError ''Content must not contain null bytes''), s)"
  by (simp add: further_validated_draft_dict_def)

lemma fvdd_timestamp_error:
  "\<not> has_null (truncate_body e (dd_content d)) \<Longrightarrow> normalized_timestamp e d s < 0 \<Longrightarrow>
   further_validated_draft_dict e d u s =
     (Inl (JsonableError ''Timestamp must not be negative.''), tick s)"
  by (simp add: further_validated_draft_dict_def normalized_timestamp_def time_time_call_def
      tick_def Let_def)

lemma fvdd_stream:
  "passes_checks e d s \<Longrightarrow> dd_type d = ''stream'' \<Longrightarrow>
   further_validated_draft_dict e d u s =
     (if has_null (truncate_topic e (dd_topic d)) then
        (Inl (JsonableError ''Topic must not contain null bytes''), tick s)
      else if length (dd_to d) \<noteq> 1 then
        (Inl (JsonableError ''Must specify exactly 1 stream ID for stream messages''), tick s)
      else
        (case resolve_stream e u (dd_to d ! 0) of
           Found r \<Rightarrow>
             Inr \<lparr>vd_recipient = Some r, vd_topic = truncate_topic e (dd_topic d),
                  vd_content = truncate_body e (dd_content d),
                  vd_last_edit_time = timestamp_to_datetime e (normalized_timestamp e d s)\<rparr>
         | _ \<Rightarrow> Inl (JsonableError ''Invalid stream id''),
         log_call (AccessStreamById u (dd_to d ! 0)) (tick s)))"
  by (simp add: further_validated_draft_dict_def normalized_timestamp_def time_time_call_def
      passes_checks_def tick_def Let_def access_stream_by_id_def split: stream_access.splits)

lemma fvdd_private:
  "passes_checks e d s \<Longrightarrow> dd_type d = ''private'' \<Longrightarrow> dd_to d \<noteq> [] \<Longrightarrow>
   further_validated_draft_dict e d u s =
     (case resolve_users e (set_order e (dd_to d)) (user_realm u) of
        Inl err \<Rightarrow>
          (Inl err,
           log_call (GetUserProfilesByIds (set_order e (dd_to d)) (user_realm u)) (tick s))
      | Inr to_users \<Rightarrow>
          (case recipient_for_user_profiles e to_users False None u of
             Inl msg \<Rightarrow> Inl (JsonableError msg)
           | Inr r \<Rightarrow>
               Inr \<lparr>vd_recipient = Some r, vd_topic = [],
                    vd_content = truncate_body e (dd_content d),
                    vd_last_edit_time = timestamp_to_datetime e (normalized_timestamp e d s)\<rparr>,
           log_call (RecipientForUserProfiles to_users u)
             (log_call (GetUserProfilesByIds (set_order e (dd_to d)) (user_realm u)) (tick s))))"
  by (simp add: further_validated_draft_dict_def normalized_timestamp_def time_time_call_def
      passes_checks_def tick_def Let_def get_user_profiles_by_ids_def
      recipient_for_user_profiles_call_def split: sum.splits)

lemma fvdd_no_recipient:
  "passes_checks e d s \<Longrightarrow> dd_type d \<noteq> ''stream'' \<Longrightarrow>
   dd_type d \<noteq> ''private'' \<or> dd_to d = [] \<Longrightarrow>
   further_validated_draft_dict e d u s =
     (Inr \<lparr>vd_recipient = None, vd_topic = [],
           vd_content = truncate_body e (dd_content d),
           vd_last_edit_time = timestamp_to_datetime e (normalized_timestamp e d s)\<rparr>, tick s)"
  by (auto simp add: further_validated_draft_dict_def normalized_timestamp_def time_time_call_def
      passes_checks_def tick_def Let_def)

text \<open>Normalization never touches the Draft table, the id counter or the store.\<close>

lemma fvdd_frame:
  "draft_table (snd (further_validated_draft_dict e d u s)) = draft_table s \<and>
   next_id (snd (further_validated_draft_dict e d u s)) = next_id s \<and>
   bulk_writes (calls (snd (further_validated_draft_dict e d u s))) = bulk_writes (calls s)"
  by (simp add: further_validated_draft_dict_def time_time_call_def Let_def
      access_stream_by_id_def get_user_profiles_by_ids_def recipient_for_user_profiles_call_def
      log_call_def bulk_writes_append
      split: sum.splits stream_access.splits)

text \<open>Past the content check the clock has been read exactly once.\<close>

lemma fvdd_calls_time:
  "\<not> has_null (truncate_body e (dd_content d)) \<Longrightarrow>
   time_calls (snd (further_validated_draft_dict e d u s)) = Suc (time_calls s)"
  by (simp add: further_validated_draft_dict_def time_time_call_def Let_def
      access_stream_by_id_def get_user_profiles_by_ids_def recipient_for_user_profiles_call_def
      log_call_def split: sum.splits stream_access.splits)

subsection \<open>Auxiliary facts on states and on the example\<close>

lemma tick_neq: "tick s \<noteq> s"
proof
  assume "tick s = s"
  then have "time_calls (tick s) = time_calls s" by simp
  then show False by (simp add: tick_def)
qed

lemma log_call_neq: "log_call c s \<noteq> s"
proof
  assume "log_call c s = s"
  then have "calls (log_call c s) = calls s" by simp
  then show False by (simp add: log_call_def)
qed

lemma calls_tick: "calls (tick s) = calls s"
  by (simp add: tick_def)

lemma calls_log_call: "calls (log_call c s) = calls s @ [c]"
  by (simp add: log_call_def)

lemma round6_example: "round6 (15954790194391587 / 10000000) = 1595479019439159 / 1000000"
  by code_simp

lemma fvdd_other_any:
  assumes "dd_type d \<noteq> ''stream''" and "dd_type d \<noteq> ''private'' \<or> dd_to d = []"
  shows "further_validated_draft_dict e d u s =
     (if has_null (truncate_body e (dd_content d)) then
        (Inl (JsonableError ''Content must not contain null bytes''), s)
      else if normalized_timestamp e d s < 0 then
        (Inl (JsonableError ''Timestamp must not be negative.''), tick s)
      else
        (Inr \<lparr>vd_recipient = None, vd_topic = [],
              vd_content = truncate_body e (dd_content d),
              vd_last_edit_time = timestamp_to_datetime e (normalized_timestamp e d s)\<rparr>,
         tick s))"
  using assms fvdd_content_error [of e d u s] fvdd_timestamp_error [of e d s u]
    fvdd_no_recipient [of e d s u]
  by (simp add: passes_checks_def)

subsection \<open>The user directory\<close>

lemma resolve_users_error:
  "resolve_users e ids r = Inl err \<Longrightarrow>
   \<exists>i \<in> set ids. err = JsonableError (''Invalid user ID '' @ str_int i)"
  by (induction ids) (auto split: option.splits sum.splits)

lemma resolve_users_success:
  "resolve_users e ids r = Inr users \<Longrightarrow> map (\<lambda>i. lookup_user e i r) ids = map Some users"
  by (induction ids arbitrary: users) (auto split: option.splits sum.splits)

lemma resolve_users_first_invalid:
  "\<forall>j \<in> set pre. lookup_user e j r \<noteq> None \<Longrightarrow> lookup_user e i r = None \<Longrightarrow>
   resolve_users e (pre @ i # post) r = Inl (JsonableError (''Invalid user ID '' @ str_int i))"
  by (induction pre) (auto split: option.splits sum.splits)

subsection \<open>The loop of create_drafts\<close>

lemma draft_loop_append:
  "draft_loop e u (xs @ ys) acc s =
     (case draft_loop e u xs acc s of
        (Inl err, s1) \<Rightarrow> (Inl err, s1)
      | (Inr objs, s1) \<Rightarrow> draft_loop e u ys objs s1)"
  by (induction xs arbitrary: acc s) (auto split: prod.splits sum.splits)

lemma draft_loop_frame:
  "draft_table (snd (draft_loop e u ds acc s)) = draft_table s \<and>
   next_id (snd (draft_loop e u ds acc s)) = next_id s \<and>
   bulk_writes (calls (snd (draft_loop e u ds acc s))) = bulk_writes (calls s)"
proof (induction ds arbitrary: acc s)
  case Nil
  show ?case by simp
next
  case (Cons d ds)
  obtain r s1 where step: "further_validated_draft_dict e d u s = (r, s1)"
    by (cases "further_validated_draft_dict e d u s")
  have frame: "draft_table s1 = draft_table s \<and> next_id s1 = next_id s \<and>
               bulk_writes (calls s1) = bulk_writes (calls s)"
    using fvdd_frame [of e d u s] step by simp
  show ?case
  proof (cases r)
    case (Inl err)
    with step frame show ?thesis by simp
  next
    case (Inr v)
    with step frame Cons.IH show ?thesis by simp
  qed
qed

lemma draft_loop_objects:
  "draft_loop e u ds acc s = (Inr objs, s1) \<Longrightarrow>
   \<exists>new. objs = acc @ new \<and> length new = length ds \<and> (\<forall>obj \<in> set new. draft_user_profile obj = u)"
proof (induction ds arbitrary: acc s)
  case Nil
  then show ?case by simp
next
  case (Cons d ds)
  from Cons.prems obtain v s' where
    step: "further_validated_draft_dict e d u s = (Inr v, s')" and
    rest: "draft_loop e u ds (acc @ [draft_of u v]) s' = (Inr objs, s1)"
    by (auto simp: draft_of_def split: prod.splits sum.splits)
  from Cons.IH [OF rest] obtain new where
    new: "objs = (acc @ [draft_of u v]) @ new" "length new = length ds"
         "\<forall>obj \<in> set new. draft_user_profile obj = u"
    by blast
  have "objs = acc @ (draft_of u v # new)" using new(1) by simp
  moreover have "length (draft_of u v # new) = length (d # ds)" using new(2) by simp
  moreover have "\<forall>obj \<in> set (draft_of u v # new). draft_user_profile obj = u"
    using new(3) by (simp add: draft_of_def)
  ultimately show ?case by blast
qed

lemma draft_loop_nth:
  assumes ok: "draft_loop e u ds [] s = (Inr objs, s1)" and k: "k < length ds"
  shows "\<exists>sk v sk'. draft_loop e u (take k ds) [] s = (Inr (take k objs), sk) \<and>
           further_validated_draft_dict e (ds ! k) u sk = (Inr v, sk') \<and>
           objs ! k = draft_of u v"
proof -
  have split: "ds = take k ds @ (ds ! k) # drop (Suc k) ds"
    using k by (simp add: id_take_nth_drop)
  obtain r sk where pre: "draft_loop e u (take k ds) [] s = (r, sk)"
    by (cases "draft_loop e u (take k ds) [] s")
  have whole: "draft_loop e u (take k ds @ (ds ! k) # drop (Suc k) ds) [] s = (Inr objs, s1)"
    using ok split by simp
  from whole pre obtain accK where r: "r = Inr accK"
    by (cases r) (auto simp: draft_loop_append)
  from draft_loop_objects [OF pre [unfolded r]] k have lenK: "length accK = k"
    by auto
  from whole pre r obtain v sk' where
    step: "further_validated_draft_dict e (ds ! k) u sk = (Inr v, sk')" and
    rest: "draft_loop e u (drop (Suc k) ds) (accK @ [draft_of u v]) sk' = (Inr objs, s1)"
    by (auto simp: draft_loop_append draft_of_def split: prod.splits sum.splits)
  from draft_loop_objects [OF rest] obtain new where "objs = (accK @ [draft_of u v]) @ new"
    by blast
  then have "take k objs = accK" "objs ! k = draft_of u v"
    using lenK by (simp_all add: nth_append)
  with pre r step show ?thesis by blast
qed

subsection \<open>Batches in which every descriptor normalizes\<close>

lemma all_normalize_Nil: "all_normalize e u [] s"
  by (simp add: all_normalize_def)

lemma all_normalize_Cons:
  "all_normalize e u (d # ds) s \<longleftrightarrow>
     normalizes e u d s \<and> all_normalize e u ds (snd (further_validated_draft_dict e d u s))"
proof
  assume all: "all_normalize e u (d # ds) s"
  then have "normalizes e u d s"
    unfolding all_normalize_def by (drule_tac x = 0 in spec) simp
  moreover have "all_normalize e u ds (snd (further_validated_draft_dict e d u s))"
    unfolding all_normalize_def
  proof (intro allI impI)
    fix k assume "k < length ds"
    with all show "normalizes e u (ds ! k)
        (state_after e u (take k ds) (snd (further_validated_draft_dict e d u s)))"
      unfolding all_normalize_def by (drule_tac x = "Suc k" in spec) simp
  qed
  ultimately show "normalizes e u d s \<and>
      all_normalize e u ds (snd (further_validated_draft_dict e d u s))" ..
next
  assume both: "normalizes e u d s \<and>
      all_normalize e u ds (snd (further_validated_draft_dict e d u s))"
  show "all_normalize e u (d # ds) s"
    unfolding all_normalize_def
  proof (intro allI impI)
    fix k assume k: "k < length (d # ds)"
    show "normalizes e u ((d # ds) ! k) (state_after e u (take k (d # ds)) s)"
    proof (cases k)
      case 0
      with both show ?thesis by simp
    next
      case (Suc j)
      with k both show ?thesis by (simp add: all_normalize_def)
    qed
  qed
qed

lemma normalizes_iff:
  "normalizes e u d s \<longleftrightarrow>
     (\<exists>v. further_validated_draft_dict e d u s =
            (Inr v, snd (further_validated_draft_dict e d u s)))"
  by (cases "further_validated_draft_dict e d u s")
     (auto simp: normalizes_def split: sum.splits)

text \<open>
  The loop ends normally exactly when every descriptor normalizes, and it then leaves
  the state that the normalizations leave.
\<close>

lemma draft_loop_all_normalize:
  "all_normalize e u ds s \<Longrightarrow>
   \<exists>objs. draft_loop e u ds acc s = (Inr objs, state_after e u ds s)"
proof (induction ds arbitrary: acc s)
  case Nil
  show ?case by simp
next
  case (Cons d ds)
  from Cons.prems have ok: "normalizes e u d s"
    and rest: "all_normalize e u ds (snd (further_validated_draft_dict e d u s))"
    by (simp_all add: all_normalize_Cons)
  from ok obtain v where
    step: "further_validated_draft_dict e d u s =
             (Inr v, snd (further_validated_draft_dict e d u s))"
    by (auto simp: normalizes_iff)
  from Cons.IH [OF rest] obtain objs where
    "draft_loop e u ds (acc @ [draft_of u v]) (snd (further_validated_draft_dict e d u s)) =
       (Inr objs, state_after e u ds (snd (further_validated_draft_dict e d u s)))"
    by blast
  then have "draft_loop e u (d # ds) acc s = (Inr objs, state_after e u (d # ds) s)"
    using step by (auto simp: draft_of_def split: prod.splits sum.splits)
  then show ?case by blast
qed

lemma draft_loop_success_all_normalize:
  "draft_loop e u ds acc s = (Inr objs, s1) \<Longrightarrow>
   all_normalize e u ds s \<and> s1 = state_after e u ds s"
proof (induction ds arbitrary: acc s)
  case Nil
  then show ?case by (simp add: all_normalize_Nil)
next
  case (Cons d ds)
  from Cons.prems obtain v s' where
    step: "further_validated_draft_dict e d u s = (Inr v, s')" and
    rest: "draft_loop e u ds (acc @ [draft_of u v]) s' = (Inr objs, s1)"
    by (auto simp: draft_of_def split: prod.splits sum.splits)
  from Cons.IH [OF rest] step show ?case
    by (simp add: all_normalize_Cons normalizes_def)
qed

lemma draft_loop_iff_all_normalize:
  "(\<exists>objs s1. draft_loop e u ds [] s = (Inr objs, s1)) \<longleftrightarrow> all_normalize e u ds s"
  using draft_loop_all_normalize [of e u ds s "[]"] draft_loop_success_all_normalize [of e u ds "[]" s]
  by blast

subsection \<open>Batches\<close>

text \<open>
  C1. When every descriptor before \<open>d\<close> normalizes and the normalization of \<open>d\<close> (in
  the state the earlier normalizations have left) raises \<open>err\<close>, the view raises \<open>err\<close>
  whatever follows \<open>d\<close> in the batch, and nothing has been persisted: the Draft table
  and the id counter are those of the start and the store has not been written to.
\<close>

theorem create_drafts_error_persists_nothing:
  assumes "all_normalize e u pre s"
    and "further_validated_draft_dict e d u (state_after e u pre s) = (Inl err, s2)"
  shows "create_drafts e u (pre @ d # post) s = (Inl err, s2) \<and>
         draft_table s2 = draft_table s \<and> next_id s2 = next_id s \<and>
         bulk_writes (calls s2) = bulk_writes (calls s)"
proof -
  from draft_loop_all_normalize [OF assms(1), of "[]"] obtain objs where
    pre: "draft_loop e u pre [] s = (Inr objs, state_after e u pre s)"
    by blast
  have loop: "draft_loop e u (pre @ d # post) [] s = (Inl err, s2)"
    using pre assms(2) by (simp add: draft_loop_append)
  then have res: "create_drafts e u (pre @ d # post) s = (Inl err, s2)"
    by (simp add: create_drafts_def)
  from draft_loop_frame [of e u "pre @ d # post" "[]" s] loop
  show ?thesis using res by simp
qed

theorem create_drafts_error_persists_nothing_witness:
  "all_normalize example_env hamlet [stream_draft] initial_state \<and>
   state_after example_env hamlet [stream_draft] initial_state =
     \<lparr>time_calls = 1, calls = [AccessStreamById hamlet 1], draft_table = [], next_id = 1\<rparr> \<and>
   (\<exists>s2.
     further_validated_draft_dict example_env (private_draft\<lparr>dd_to := [999, 998]\<rparr>) hamlet
       (state_after example_env hamlet [stream_draft] initial_state) =
       (Inl (JsonableError ''Invalid user ID 998''), s2) \<and>
     create_drafts example_env hamlet
       ([stream_draft] @ private_draft\<lparr>dd_to := [999, 998]\<rparr> # [stream_draft]) initial_state =
       (Inl (JsonableError ''Invalid user ID 998''), s2) \<and>
     draft_table s2 = [] \<and> bulk_writes (calls s2) = [])"
proof -
  let ?s1 = "\<lparr>time_calls = 1, calls = [AccessStreamById hamlet 1], draft_table = [], next_id = 1\<rparr>"
  let ?s2 = "\<lparr>time_calls = 2,
              calls = [AccessStreamById hamlet 1, GetUserProfilesByIds [998, 999] (Realm 1)],
              draft_table = [], next_id = 1\<rparr>"
  have first: "normalizes example_env hamlet stream_draft initial_state"
    by code_simp
  have pre: "all_normalize example_env hamlet [stream_draft] initial_state"
    using first by (simp add: all_normalize_Cons all_normalize_Nil)
  have after: "state_after example_env hamlet [stream_draft] initial_state = ?s1"
    by code_simp
  have bad: "further_validated_draft_dict example_env (private_draft\<lparr>dd_to := [999, 998]\<rparr>)
               hamlet (state_after example_env hamlet [stream_draft] initial_state) =
             (Inl (JsonableError ''Invalid user ID 998''), ?s2)"
    by code_simp
  from create_drafts_error_persists_nothing [OF pre bad, of "[stream_draft]"]
  have "create_drafts example_env hamlet
          ([stream_draft] @ private_draft\<lparr>dd_to := [999, 998]\<rparr> # [stream_draft]) initial_state =
          (Inl (JsonableError ''Invalid user ID 998''), ?s2) \<and>
        draft_table ?s2 = [] \<and> bulk_writes (calls ?s2) = []"
    by (simp add: initial_state_def)
  with pre after bad show ?thesis by blast
qed

text \<open>
  C2. When every descriptor of a batch of \<open>N\<close> normalizes, the view answers with \<open>N\<close>
  distinct ids; one write to the store appends \<open>N\<close> drafts to the Draft table, the
  \<open>k\<close>-th id with the \<open>k\<close>-th draft; every draft is owned by the requesting user; and
  the \<open>k\<close>-th draft is the one built from the record that the normalization of the
  \<open>k\<close>-th descriptor returns.
\<close>

theorem create_drafts_success:
  assumes ok: "all_normalize e u ds s"
  shows "\<exists>ids objs s2. create_drafts e u ds s = (Inr ids, s2) \<and>
           length ids = length ds \<and> length objs = length ds \<and> distinct ids \<and>
           draft_table s2 = draft_table s @ zip ids objs \<and>
           bulk_writes (calls s2) = bulk_writes (calls s) @ [objs] \<and>
           (\<forall>obj \<in> set objs. draft_user_profile obj = u) \<and>
           (\<forall>k < length ds. \<exists>v.
              fst (further_validated_draft_dict e (ds ! k) u (state_after e u (take k ds) s)) =
                Inr v \<and>
              objs ! k = draft_of u v)"
proof -
  from draft_loop_all_normalize [OF ok, of "[]"] obtain objs where
    loop: "draft_loop e u ds [] s = (Inr objs, state_after e u ds s)"
    by blast
  let ?s1 = "state_after e u ds s"
  let ?ids = "map (\<lambda>k. next_id ?s1 + int k) [0..<length objs]"
  let ?s2 = "?s1\<lparr>calls := calls ?s1 @ [BulkCreate objs],
                draft_table := draft_table ?s1 @ zip ?ids objs,
                next_id := next_id ?s1 + int (length objs)\<rparr>"
  have frame: "draft_table ?s1 = draft_table s" "bulk_writes (calls ?s1) = bulk_writes (calls s)"
    using draft_loop_frame [of e u ds "[]" s] loop by simp_all
  from draft_loop_objects [OF loop] have len: "length objs = length ds"
    and owner: "\<forall>obj \<in> set objs. draft_user_profile obj = u"
    by auto
  have res: "create_drafts e u ds s = (Inr ?ids, ?s2)"
    using loop by (simp add: create_drafts_def bulk_create_def Let_def)
  have "distinct ?ids"
    by (simp add: distinct_map inj_on_def)
  moreover have "length ?ids = length ds" using len by simp
  moreover have "draft_table ?s2 = draft_table s @ zip ?ids objs" using frame by simp
  moreover have "bulk_writes (calls ?s2) = bulk_writes (calls s) @ [objs]"
    using frame by (simp add: bulk_writes_append)
  moreover have "\<forall>k < length ds. \<exists>v.
              fst (further_validated_draft_dict e (ds ! k) u (state_after e u (take k ds) s)) =
                Inr v \<and>
              objs ! k = draft_of u v"
  proof (intro allI impI)
    fix k assume k: "k < length ds"
    from draft_loop_nth [OF loop k] obtain sk v sk' where
      pre: "draft_loop e u (take k ds) [] s = (Inr (take k objs), sk)" and
      step: "further_validated_draft_dict e (ds ! k) u sk = (Inr v, sk')" and
      obj: "objs ! k = draft_of u v"
      by blast
    from draft_loop_success_all_normalize [OF pre] have "sk = state_after e u (take k ds) s"
      by simp
    with step obj show "\<exists>v.
              fst (further_validated_draft_dict e (ds ! k) u (state_after e u (take k ds) s)) =
                Inr v \<and>
              objs ! k = draft_of u v"
      by auto
  qed
  ultimately show ?thesis using res len owner by blast
qed

theorem create_drafts_success_witness:
  "all_normalize example_env hamlet [stream_draft, private_draft] initial_state \<and>
   (\<exists>objs s2.
     create_drafts example_env hamlet [stream_draft, private_draft] initial_state =
       (Inr [1, 2], s2) \<and>
     draft_table s2 = zip [1, 2] objs \<and> bulk_writes (calls s2) = [objs] \<and>
     map draft_user_profile objs = [hamlet, hamlet] \<and>
     map draft_topic objs = [''sync '', []])"
proof -
  let ?objs = "[\<lparr>draft_user_profile = hamlet, draft_recipient = Some (Recipient 100),
                 draft_topic = ''sync '', draft_content = ''hello'',
                 draft_last_edit_time = Datetime (1595479019439159 / 1000000)\<rparr>,
               \<lparr>draft_user_profile = hamlet, draft_recipient = Some (Recipient 15),
                 draft_topic = [], draft_content = ''hi'',
                 draft_last_edit_time = Datetime 1595479020\<rparr>]"
  have first: "normalizes example_env hamlet stream_draft initial_state"
    by code_simp
  have second: "normalizes example_env hamlet private_draft
      (snd (further_validated_draft_dict example_env stream_draft hamlet initial_state))"
    by code_simp
  have ok: "all_normalize example_env hamlet [stream_draft, private_draft] initial_state"
    using first second by (simp add: all_normalize_Cons all_normalize_Nil)
  have res: "fst (create_drafts example_env hamlet [stream_draft, private_draft] initial_state) =
               Inr [1, 2]"
    by code_simp
  have writes: "bulk_writes (calls (snd (create_drafts example_env hamlet
      [stream_draft, private_draft] initial_state))) = [?objs]"
    by code_simp
  from create_drafts_success [OF ok] obtain ids objs s2 where
    a: "create_drafts example_env hamlet [stream_draft, private_draft] initial_state = (Inr ids, s2)"
    and b: "draft_table s2 = draft_table initial_state @ zip ids objs"
    and c: "bulk_writes (calls s2) = bulk_writes (calls initial_state) @ [objs]"
    by blast
  from a res have ids: "ids = [1, 2]" by simp
  from a c writes have objs: "objs = ?objs" by (simp add: initial_state_def)
  have "draft_table s2 = zip [1, 2] ?objs" "bulk_writes (calls s2) = [?objs]"
    using b c ids objs by (simp_all add: initial_state_def)
  moreover have "map draft_user_profile ?objs = [hamlet, hamlet]"
    "map draft_topic ?objs = [''sync '', []]"
    by simp_all
  ultimately show ?thesis using ok a ids
    by (intro conjI exI [of _ ?objs] exI [of _ s2]) simp_all
qed

subsection \<open>Content\<close>

text \<open>
  C5. The content is truncated first, and the truncated content is what the
  normalized record holds. Normalization stops at the content check, with the error
  "Content must not contain null bytes" and before anything else is done, if and only
  if the truncated content contains a null byte. As long as the recipient deriver
  does not itself report that message, it is the error of normalization if and only
  if the truncated content contains a null byte; a null byte that truncation removes
  does not count.
\<close>

theorem content_null_bytes:
  "(further_validated_draft_dict e d u s =
      (Inl (JsonableError ''Content must not contain null bytes''), s)
    \<longleftrightarrow> has_null (truncate_body e (dd_content d))) \<and>
   ((\<forall>users. recipient_for_user_profiles e users False None u
        \<noteq> Inl ''Content must not contain null bytes'') \<longrightarrow>
    (fst (further_validated_draft_dict e d u s) =
       Inl (JsonableError ''Content must not contain null bytes'')
     \<longleftrightarrow> has_null (truncate_body e (dd_content d)))) \<and>
   (\<forall>v s'. further_validated_draft_dict e d u s = (Inr v, s') \<longrightarrow>
      vd_content v = truncate_body e (dd_content d))"
proof (intro conjI)
  show "further_validated_draft_dict e d u s =
      (Inl (JsonableError ''Content must not contain null bytes''), s)
    \<longleftrightarrow> has_null (truncate_body e (dd_content d))"
  proof
    assume eq: "further_validated_draft_dict e d u s =
      (Inl (JsonableError ''Content must not contain null bytes''), s)"
    show "has_null (truncate_body e (dd_content d))"
    proof (rule ccontr)
      assume "\<not> has_null (truncate_body e (dd_content d))"
      from fvdd_calls_time [OF this, of u s] eq show False by simp
    qed
  qed (rule fvdd_content_error)
next
  show "(\<forall>users. recipient_for_user_profiles e users False None u
        \<noteq> Inl ''Content must not contain null bytes'') \<longrightarrow>
    (fst (further_validated_draft_dict e d u s) =
       Inl (JsonableError ''Content must not contain null bytes'')
     \<longleftrightarrow> has_null (truncate_body e (dd_content d)))"
  proof (intro impI iffI)
    assume quiet: "\<forall>users. recipient_for_user_profiles e users False None u
        \<noteq> Inl ''Content must not contain null bytes''"
      and res: "fst (further_validated_draft_dict e d u s) =
       Inl (JsonableError ''Content must not contain null bytes'')"
    show "has_null (truncate_body e (dd_content d))"
    proof (rule ccontr)
      assume ok: "\<not> has_null (truncate_body e (dd_content d))"
      show False
      proof (cases "normalized_timestamp e d s < 0")
        case True
        from fvdd_timestamp_error [OF ok True, of u] res show False by simp
      next
        case False
        with ok have pc: "passes_checks e d s" by (simp add: passes_checks_def)
        consider "dd_type d = ''stream''" | "dd_type d = ''private''" "dd_to d \<noteq> []"
          | "dd_type d \<noteq> ''stream''" "dd_type d \<noteq> ''private'' \<or> dd_to d = []"
          by blast
        then show False
        proof cases
          case 1
          from fvdd_stream [OF pc 1, of u] res show False
            by (simp split: if_splits stream_access.splits)
        next
          case 2
          from fvdd_private [OF pc 2, of u] res quiet show False
            by (auto split: sum.splits dest!: resolve_users_error)
        next
          case 3
          from fvdd_no_recipient [OF pc 3, of u] res show False by simp
        qed
      qed
    qed
  next
    assume "has_null (truncate_body e (dd_content d))"
    then show "fst (further_validated_draft_dict e d u s) =
       Inl (JsonableError ''Content must not contain null bytes'')"
      by (simp add: fvdd_content_error)
  qed
next
  show "\<forall>v s'. further_validated_draft_dict e d u s = (Inr v, s') \<longrightarrow>
      vd_content v = truncate_body e (dd_content d)"
    by (auto simp add: further_validated_draft_dict_def time_time_call_def Let_def
      access_stream_by_id_def get_user_profiles_by_ids_def recipient_for_user_profiles_call_def
      split: sum.splits stream_access.splits if_splits)
qed

theorem content_null_bytes_witness:
  "(\<forall>users. recipient_for_user_profiles example_env users False None hamlet
       \<noteq> Inl ''Content must not contain null bytes'') \<and>
   has_null (truncate_body example_env (''some '' @ [CHR 0x00] @ '' content'')) \<and>
   fst (further_validated_draft_dict example_env
          (stream_draft\<lparr>dd_content := ''some '' @ [CHR 0x00] @ '' content''\<rparr>)
          hamlet initial_state) =
     Inl (JsonableError ''Content must not contain null bytes'') \<and>
   \<not> has_null (truncate_body example_env (''0123456789'' @ [CHR 0x00])) \<and>
   fst (further_validated_draft_dict example_env
          (stream_draft\<lparr>dd_content := ''0123456789'' @ [CHR 0x00]\<rparr>) hamlet initial_state) \<noteq>
     Inl (JsonableError ''Content must not contain null bytes'')"
proof -
  have quiet: "\<forall>users. recipient_for_user_profiles example_env users False None hamlet
       \<noteq> Inl ''Content must not contain null bytes''"
    by (simp add: example_env_def)
  have cut: "has_null (truncate_body example_env (''some '' @ [CHR 0x00] @ '' content''))"
    by (simp add: example_env_def has_null_def)
  have kept: "\<not> has_null (truncate_body example_env (''0123456789'' @ [CHR 0x00]))"
    by (simp add: example_env_def has_null_def)
  from content_null_bytes
    [of example_env "stream_draft\<lparr>dd_content := ''some '' @ [CHR 0x00] @ '' content''\<rparr>"
      hamlet initial_state]
    content_null_bytes
    [of example_env "stream_draft\<lparr>dd_content := ''0123456789'' @ [CHR 0x00]\<rparr>"
      hamlet initial_state]
    quiet cut kept
  show ?thesis by simp
qed

subsection \<open>Timestamp\<close>

text \<open>
  C3 as stated does not hold. A supplied timestamp of \<open>-0.0000001\<close> is negative, but
  the check is made after rounding, it rounds to zero, and the descriptor is accepted
  with the epoch as its time. And a descriptor whose content contains a null byte is
  rejected for its content before its timestamp of \<open>-10.1\<close> is looked at.
\<close>

theorem timestamp_negative_counterexample:
  "draft_dict_validator (stream_draft\<lparr>dd_timestamp := Some (- 1 / 10000000)\<rparr>) \<and>
   fst (further_validated_draft_dict example_env
          (stream_draft\<lparr>dd_timestamp := Some (- 1 / 10000000)\<rparr>) hamlet initial_state) =
     Inr \<lparr>vd_recipient = Some (Recipient 100), vd_topic = ''sync '', vd_content = ''hello'',
          vd_last_edit_time = Datetime 0\<rparr> \<and>
   draft_dict_validator
     (stream_draft\<lparr>dd_content := ''null '' @ [CHR 0x00], dd_timestamp := Some (- 101 / 10)\<rparr>) \<and>
   fst (further_validated_draft_dict example_env
          (stream_draft\<lparr>dd_content := ''null '' @ [CHR 0x00], dd_timestamp := Some (- 101 / 10)\<rparr>)
          hamlet initial_state) =
     Inl (JsonableError ''Content must not contain null bytes'')"
  by code_simp

text \<open>
  C3, amended. When normalization succeeds, the time of the record is the supplied
  timestamp if present, otherwise the reading of the clock, rounded to 6 decimal
  digits (and converted by \<open>timestamp_to_datetime\<close>). Normalization stops at the
  timestamp check, with "Timestamp must not be negative." after one reading of the
  clock and nothing else, if and only if the truncated content has no null byte and
  the rounded timestamp is negative.
\<close>

theorem timestamp_normalized:
  "(\<forall>v s'. further_validated_draft_dict e d u s = (Inr v, s') \<longrightarrow>
      vd_last_edit_time v = timestamp_to_datetime e (normalized_timestamp e d s)) \<and>
   (further_validated_draft_dict e d u s =
      (Inl (JsonableError ''Timestamp must not be negative.''), tick s)
    \<longleftrightarrow> \<not> has_null (truncate_body e (dd_content d)) \<and> normalized_timestamp e d s < 0)"
proof (rule conjI)
  show "\<forall>v s'. further_validated_draft_dict e d u s = (Inr v, s') \<longrightarrow>
      vd_last_edit_time v = timestamp_to_datetime e (normalized_timestamp e d s)"
    by (auto simp add: further_validated_draft_dict_def time_time_call_def Let_def
        normalized_timestamp_def
        access_stream_by_id_def get_user_profiles_by_ids_def recipient_for_user_profiles_call_def
        split: sum.splits stream_access.splits if_splits)
next
  show "further_validated_draft_dict e d u s =
      (Inl (JsonableError ''Timestamp must not be negative.''), tick s)
    \<longleftrightarrow> \<not> has_null (truncate_body e (dd_content d)) \<and> normalized_timestamp e d s < 0"
  proof
  assume res: "further_validated_draft_dict e d u s =
      (Inl (JsonableError ''Timestamp must not be negative.''), tick s)"
  have content: "\<not> has_null (truncate_body e (dd_content d))"
  proof
    assume "has_null (truncate_body e (dd_content d))"
    from fvdd_content_error [OF this, of u s] res show False
      using tick_neq [of s] by simp
  qed
  moreover have "normalized_timestamp e d s < 0"
  proof (rule ccontr)
    assume "\<not> normalized_timestamp e d s < 0"
    with content have pc: "passes_checks e d s" by (simp add: passes_checks_def)
    consider "dd_type d = ''stream''" | "dd_type d = ''private''" "dd_to d \<noteq> []"
      | "dd_type d \<noteq> ''stream''" "dd_type d \<noteq> ''private'' \<or> dd_to d = []"
      by blast
    then show False
    proof cases
      case 1
      from fvdd_stream [OF pc 1, of u] res show False
        using log_call_neq [of "AccessStreamById u (dd_to d ! 0)" "tick s"]
        by (simp split: if_splits)
    next
      case 2
      have "calls (snd (further_validated_draft_dict e d u s)) \<noteq> calls s"
        using fvdd_private [OF pc 2, of u]
        by (simp add: calls_log_call calls_tick split: sum.splits)
      with res show False by (simp add: calls_tick)
    next
      case 3
      from fvdd_no_recipient [OF pc 3, of u] res show False by simp
    qed
  qed
  ultimately show "\<not> has_null (truncate_body e (dd_content d)) \<and> normalized_timestamp e d s < 0" ..
next
  assume "\<not> has_null (truncate_body e (dd_content d)) \<and> normalized_timestamp e d s < 0"
  then show "further_validated_draft_dict e d u s =
      (Inl (JsonableError ''Timestamp must not be negative.''), tick s)"
    by (simp add: fvdd_timestamp_error)
  qed
qed

theorem timestamp_normalized_witness:
  "further_validated_draft_dict example_env stream_draft hamlet initial_state =
     (Inr \<lparr>vd_recipient = Some (Recipient 100), vd_topic = ''sync '', vd_content = ''hello'',
           vd_last_edit_time = Datetime (1595479019439159 / 1000000)\<rparr>,
      \<lparr>time_calls = 1, calls = [AccessStreamById hamlet 1], draft_table = [], next_id = 1\<rparr>) \<and>
   timestamp_to_datetime example_env (normalized_timestamp example_env stream_draft initial_state) =
     Datetime (1595479019439159 / 1000000) \<and>
   normalized_timestamp example_env (stream_draft\<lparr>dd_to := [], dd_timestamp := Some (- 101 / 10)\<rparr>)
     initial_state < 0 \<and>
   further_validated_draft_dict example_env
     (stream_draft\<lparr>dd_to := [], dd_timestamp := Some (- 101 / 10)\<rparr>) hamlet initial_state =
     (Inl (JsonableError ''Timestamp must not be negative.''), tick initial_state)"
proof -
  let ?v = "\<lparr>vd_recipient = Some (Recipient 100), vd_topic = ''sync '', vd_content = ''hello'',
           vd_last_edit_time = Datetime (1595479019439159 / 1000000)\<rparr>"
  have run: "further_validated_draft_dict example_env stream_draft hamlet initial_state =
     (Inr ?v, \<lparr>time_calls = 1, calls = [AccessStreamById hamlet 1], draft_table = [], next_id = 1\<rparr>)"
    by code_simp
  have neg: "normalized_timestamp example_env
      (stream_draft\<lparr>dd_to := [], dd_timestamp := Some (- 101 / 10)\<rparr>) initial_state < 0"
    by code_simp
  have clean: "\<not> has_null (truncate_body example_env
      (dd_content (stream_draft\<lparr>dd_to := [], dd_timestamp := Some (- 101 / 10)\<rparr>)))"
    by code_simp
  from timestamp_normalized [of example_env stream_draft hamlet initial_state] run
  have "vd_last_edit_time ?v =
    timestamp_to_datetime example_env (normalized_timestamp example_env stream_draft initial_state)"
    by blast
  moreover from timestamp_normalized
    [of example_env "stream_draft\<lparr>dd_to := [], dd_timestamp := Some (- 101 / 10)\<rparr>" hamlet initial_state]
    neg clean
  have "further_validated_draft_dict example_env
     (stream_draft\<lparr>dd_to := [], dd_timestamp := Some (- 101 / 10)\<rparr>) hamlet initial_state =
     (Inl (JsonableError ''Timestamp must not be negative.''), tick initial_state)"
    by blast
  ultimately show ?thesis using run neg by simp
qed

subsection \<open>Stream drafts\<close>

text \<open>
  C4 as stated does not hold for a stream descriptor that fails an earlier check: with
  an empty \<open>to\<close> list and the timestamp \<open>-10.1\<close> (the input of the repository's test
  \<open>test_invalid_timestamp\<close>) the error is the timestamp's, not "Must specify exactly 1
  stream ID for stream messages".
\<close>

theorem stream_steps_counterexample:
  "draft_dict_validator (stream_draft\<lparr>dd_to := [], dd_timestamp := Some (- 101 / 10)\<rparr>) \<and>
   dd_type (stream_draft\<lparr>dd_to := [], dd_timestamp := Some (- 101 / 10)\<rparr>) = ''stream'' \<and>
   length (dd_to (stream_draft\<lparr>dd_to := [], dd_timestamp := Some (- 101 / 10)\<rparr>)) \<noteq> 1 \<and>
   further_validated_draft_dict example_env
     (stream_draft\<lparr>dd_to := [], dd_timestamp := Some (- 101 / 10)\<rparr>) hamlet initial_state =
     (Inl (JsonableError ''Timestamp must not be negative.''),
      \<lparr>time_calls = 1, calls = [], draft_table = [], next_id = 1\<rparr>)"
  by code_simp

text \<open>
  C4, amended. For a descriptor of type "stream" that has passed the content check and
  the timestamp check: if the truncated topic contains a null byte the error is "Topic
  must not contain null bytes", whatever \<open>to\<close> holds; otherwise, if \<open>to\<close> does not hold
  exactly one id, the error is "Must specify exactly 1 stream ID for stream messages"
  and no stream is looked up; otherwise the single id is looked up once, the error is
  "Invalid stream id" both when the stream does not exist and when access is denied,
  and on success the record holds the truncated topic and the stream's recipient.
\<close>

theorem stream_steps_in_order:
  assumes "dd_type d = ''stream''" and "passes_checks e d s"
  shows "(has_null (truncate_topic e (dd_topic d)) \<longrightarrow>
            further_validated_draft_dict e d u s =
              (Inl (JsonableError ''Topic must not contain null bytes''), tick s)) \<and>
         (\<not> has_null (truncate_topic e (dd_topic d)) \<and> length (dd_to d) \<noteq> 1 \<longrightarrow>
            further_validated_draft_dict e d u s =
              (Inl (JsonableError ''Must specify exactly 1 stream ID for stream messages''),
               tick s)) \<and>
         (\<forall>stream_id. \<not> has_null (truncate_topic e (dd_topic d)) \<and> dd_to d = [stream_id] \<longrightarrow>
            further_validated_draft_dict e d u s =
              (case resolve_stream e u stream_id of
                 NotFound \<Rightarrow> Inl (JsonableError ''Invalid stream id'')
               | AccessDenied \<Rightarrow> Inl (JsonableError ''Invalid stream id'')
               | Found r \<Rightarrow>
                   Inr \<lparr>vd_recipient = Some r, vd_topic = truncate_topic e (dd_topic d),
                        vd_content = truncate_body e (dd_content d),
                        vd_last_edit_time =
                          timestamp_to_datetime e (normalized_timestamp e d s)\<rparr>,
               log_call (AccessStreamById u stream_id) (tick s)))"
  using fvdd_stream [OF assms(2,1), of u]
  by (auto split: stream_access.splits)

theorem stream_steps_in_order_witness:
  "dd_type stream_draft = ''stream'' \<and> passes_checks example_env stream_draft initial_state \<and>
   further_validated_draft_dict example_env (stream_draft\<lparr>dd_topic := [CHR 0x00], dd_to := []\<rparr>)
     hamlet initial_state =
     (Inl (JsonableError ''Topic must not contain null bytes''), tick initial_state) \<and>
   further_validated_draft_dict example_env (stream_draft\<lparr>dd_to := [1, 2]\<rparr>)
     hamlet initial_state =
     (Inl (JsonableError ''Must specify exactly 1 stream ID for stream messages''),
      tick initial_state) \<and>
   further_validated_draft_dict example_env (stream_draft\<lparr>dd_to := [2]\<rparr>) hamlet initial_state =
     (Inl (JsonableError ''Invalid stream id''),
      log_call (AccessStreamById hamlet 2) (tick initial_state)) \<and>
   further_validated_draft_dict example_env (stream_draft\<lparr>dd_to := [3]\<rparr>) hamlet initial_state =
     (Inl (JsonableError ''Invalid stream id''),
      log_call (AccessStreamById hamlet 3) (tick initial_state)) \<and>
   further_validated_draft_dict example_env stream_draft hamlet initial_state =
     (Inr \<lparr>vd_recipient = Some (Recipient 100), vd_topic = ''sync '', vd_content = ''hello'',
           vd_last_edit_time = Datetime (1595479019439159 / 1000000)\<rparr>,
      log_call (AccessStreamById hamlet 1) (tick initial_state))"
proof -
  have ty: "dd_type (stream_draft\<lparr>dd_topic := t, dd_to := ids\<rparr>) = ''stream''"
    "dd_type (stream_draft\<lparr>dd_to := ids\<rparr>) = ''stream''" "dd_type stream_draft = ''stream''"
    for t ids
    by (simp_all add: stream_draft_def)
  have pc: "passes_checks example_env (stream_draft\<lparr>dd_topic := t, dd_to := ids\<rparr>) initial_state"
    "passes_checks example_env (stream_draft\<lparr>dd_to := ids\<rparr>) initial_state"
    "passes_checks example_env stream_draft initial_state"
    for t ids
    by (simp_all add: passes_checks_def normalized_timestamp_def stream_draft_def example_env_def
        has_null_def round6_example)
  have ts: "normalized_timestamp example_env stream_draft initial_state = 1595479019439159 / 1000000"
    by (simp add: normalized_timestamp_def stream_draft_def round6_example)
  from stream_steps_in_order
    [OF ty(1) [where t = "[CHR 0x00]" and ids = "[]"] pc(1) [where t = "[CHR 0x00]" and ids = "[]"],
      of hamlet]
  have a: "further_validated_draft_dict example_env (stream_draft\<lparr>dd_topic := [CHR 0x00], dd_to := []\<rparr>)
     hamlet initial_state =
     (Inl (JsonableError ''Topic must not contain null bytes''), tick initial_state)"
    by (simp add: example_env_def has_null_def)
  from stream_steps_in_order [OF ty(2) [where ids = "[1, 2]"] pc(2) [where ids = "[1, 2]"], of hamlet]
  have b: "further_validated_draft_dict example_env (stream_draft\<lparr>dd_to := [1, 2]\<rparr>)
     hamlet initial_state =
     (Inl (JsonableError ''Must specify exactly 1 stream ID for stream messages''),
      tick initial_state)"
    by (simp add: example_env_def has_null_def stream_draft_def)
  from stream_steps_in_order [OF ty(2) [where ids = "[2]"] pc(2) [where ids = "[2]"], of hamlet]
  have c: "further_validated_draft_dict example_env (stream_draft\<lparr>dd_to := [2]\<rparr>) hamlet initial_state =
     (Inl (JsonableError ''Invalid stream id''),
      log_call (AccessStreamById hamlet 2) (tick initial_state))"
    by (simp add: example_env_def has_null_def stream_draft_def)
  from stream_steps_in_order [OF ty(2) [where ids = "[3]"] pc(2) [where ids = "[3]"], of hamlet]
  have d: "further_validated_draft_dict example_env (stream_draft\<lparr>dd_to := [3]\<rparr>) hamlet initial_state =
     (Inl (JsonableError ''Invalid stream id''),
      log_call (AccessStreamById hamlet 3) (tick initial_state))"
    by (simp add: example_env_def has_null_def stream_draft_def)
  from stream_steps_in_order [OF ty(3) pc(3), of hamlet]
  have e: "further_validated_draft_dict example_env stream_draft hamlet initial_state =
     (Inr \<lparr>vd_recipient = Some (Recipient 100), vd_topic = ''sync '', vd_content = ''hello'',
           vd_last_edit_time = Datetime (1595479019439159 / 1000000)\<rparr>,
      log_call (AccessStreamById hamlet 1) (tick initial_state))"
    unfolding ts by (simp add: example_env_def has_null_def stream_draft_def)
  from ty(3) pc(3) a b c d e show ?thesis by simp
qed

subsection \<open>Private drafts\<close>

text \<open>
  C6. For a descriptor of type "private" with a non-empty \<open>to\<close> list, whenever
  normalization yields a record, its topic is the empty string (whatever the input
  topic), and its recipient is the one derived from the users found for the ids of
  \<open>to\<close>, each id taken once.
\<close>

theorem private_topic_and_recipient:
  assumes "dd_type d = ''private''" and "dd_to d \<noteq> []" and "iterates_set e (dd_to d)"
    and "further_validated_draft_dict e d u s = (Inr v, s')"
  shows "vd_topic v = [] \<and>
         (\<exists>ids users r.
            distinct ids \<and> set ids = set (dd_to d) \<and>
            map (\<lambda>i. lookup_user e i (user_realm u)) ids = map Some users \<and>
            recipient_for_user_profiles e users False None u = Inr r \<and>
            vd_recipient v = Some r)"
proof -
  have content: "\<not> has_null (truncate_body e (dd_content d))"
    using assms(4) by (auto simp: fvdd_content_error)
  have "\<not> normalized_timestamp e d s < 0"
    using assms(4) content by (auto simp: fvdd_timestamp_error)
  with content have pc: "passes_checks e d s"
    by (simp add: passes_checks_def)
  from fvdd_private [OF pc assms(1,2), of u] assms(4)
  obtain users r where
    users: "resolve_users e (set_order e (dd_to d)) (user_realm u) = Inr users" and
    r: "recipient_for_user_profiles e users False None u = Inr r" and
    v: "v = \<lparr>vd_recipient = Some r, vd_topic = [],
              vd_content = truncate_body e (dd_content d),
              vd_last_edit_time = timestamp_to_datetime e (normalized_timestamp e d s)\<rparr>"
    by (auto split: sum.splits)
  from assms(3) have "distinct (set_order e (dd_to d))" "set (set_order e (dd_to d)) = set (dd_to d)"
    by (simp_all add: iterates_set_def)
  with resolve_users_success [OF users] r v show ?thesis
    by auto
qed

theorem private_topic_and_recipient_witness:
  "dd_type private_draft = ''private'' \<and> dd_to private_draft = [8, 7, 8] \<and>
   dd_topic private_draft = ''ignored'' \<and>
   iterates_set example_env (dd_to private_draft) \<and>
   further_validated_draft_dict example_env private_draft hamlet initial_state =
     (Inr \<lparr>vd_recipient = Some (Recipient 15), vd_topic = [], vd_content = ''hi'',
           vd_last_edit_time = Datetime 1595479019\<rparr>,
      \<lparr>time_calls = 1,
       calls = [GetUserProfilesByIds [7, 8] (Realm 1),
                RecipientForUserProfiles
                  [\<lparr>user_id = 7, user_realm = Realm 1\<rparr>, \<lparr>user_id = 8, user_realm = Realm 1\<rparr>]
                  hamlet],
       draft_table = [], next_id = 1\<rparr>) \<and>
   (\<exists>ids users.
      distinct ids \<and> set ids = {7, 8} \<and>
      map (\<lambda>i. lookup_user example_env i (Realm 1)) ids = map Some users \<and>
      recipient_for_user_profiles example_env users False None hamlet = Inr (Recipient 15))"
proof -
  have ty: "dd_type private_draft = ''private''" and to: "dd_to private_draft = [8, 7, 8]"
    and topic: "dd_topic private_draft = ''ignored''"
    by (simp_all add: private_draft_def)
  have ne: "dd_to private_draft \<noteq> []" by (simp add: to)
  have it: "iterates_set example_env (dd_to private_draft)"
    by (simp add: iterates_set_def example_env_def)
  have run: "further_validated_draft_dict example_env private_draft hamlet initial_state =
     (Inr \<lparr>vd_recipient = Some (Recipient 15), vd_topic = [], vd_content = ''hi'',
           vd_last_edit_time = Datetime 1595479019\<rparr>,
      \<lparr>time_calls = 1,
       calls = [GetUserProfilesByIds [7, 8] (Realm 1),
                RecipientForUserProfiles
                  [\<lparr>user_id = 7, user_realm = Realm 1\<rparr>, \<lparr>user_id = 8, user_realm = Realm 1\<rparr>]
                  hamlet],
       draft_table = [], next_id = 1\<rparr>)"
    by code_simp
  from private_topic_and_recipient [OF ty ne it run]
  have "\<exists>ids users.
      distinct ids \<and> set ids = {7, 8} \<and>
      map (\<lambda>i. lookup_user example_env i (Realm 1)) ids = map Some users \<and>
      recipient_for_user_profiles example_env users False None hamlet = Inr (Recipient 15)"
    by (auto simp add: to hamlet_def)
  with ty to topic it run show ?thesis by simp
qed

text \<open>
  C7 as stated does not hold for a descriptor that fails an earlier check: a private
  draft to the unknown user 999 whose content contains a null byte is rejected for its
  content, and the user directory is never asked.
\<close>

theorem invalid_user_counterexample:
  "draft_dict_validator (private_draft\<lparr>dd_to := [999], dd_content := ''null '' @ [CHR 0x00]\<rparr>) \<and>
   dd_type (private_draft\<lparr>dd_to := [999], dd_content := ''null '' @ [CHR 0x00]\<rparr>) = ''private'' \<and>
   lookup_user example_env 999 (user_realm hamlet) = None \<and>
   further_validated_draft_dict example_env
     (private_draft\<lparr>dd_to := [999], dd_content := ''null '' @ [CHR 0x00]\<rparr>) hamlet initial_state =
     (Inl (JsonableError ''Content must not contain null bytes''), initial_state)"
  by code_simp

text \<open>
  C7, amended. For a descriptor of type "private" with a non-empty \<open>to\<close> list that has
  passed the content check and the timestamp check: if some id of \<open>to\<close> is not a visible
  user, normalization fails with "Invalid user ID <id>", where <id> is the first such
  id in the order in which the set of ids is iterated (not necessarily the order of
  \<open>to\<close>); the recipient deriver is not called.
\<close>

theorem invalid_user_reported:
  assumes "dd_type d = ''private''" and "dd_to d \<noteq> []" and "passes_checks e d s"
    and "iterates_set e (dd_to d)"
    and "\<exists>i \<in> set (dd_to d). lookup_user e i (user_realm u) = None"
  shows "\<exists>before i after.
           set_order e (dd_to d) = before @ i # after \<and>
           (\<forall>j \<in> set before. lookup_user e j (user_realm u) \<noteq> None) \<and>
           lookup_user e i (user_realm u) = None \<and>
           further_validated_draft_dict e d u s =
             (Inl (JsonableError (''Invalid user ID '' @ str_int i)),
              log_call (GetUserProfilesByIds (set_order e (dd_to d)) (user_realm u)) (tick s))"
proof -
  from assms(4,5) have "\<exists>i \<in> set (set_order e (dd_to d)). lookup_user e i (user_realm u) = None"
    by (simp add: iterates_set_def)
  from split_list_first_prop [OF this] obtain before i after where
    order: "set_order e (dd_to d) = before @ i # after" and
    inv: "lookup_user e i (user_realm u) = None" and
    ok: "\<forall>j \<in> set before. lookup_user e j (user_realm u) \<noteq> None"
    by blast
  from resolve_users_first_invalid [OF ok inv, of after]
  have "resolve_users e (set_order e (dd_to d)) (user_realm u) =
          Inl (JsonableError (''Invalid user ID '' @ str_int i))"
    by (simp add: order)
  with fvdd_private [OF assms(3,1,2), of u]
  have "further_validated_draft_dict e d u s =
             (Inl (JsonableError (''Invalid user ID '' @ str_int i)),
              log_call (GetUserProfilesByIds (set_order e (dd_to d)) (user_realm u)) (tick s))"
    by simp
  with order inv ok show ?thesis by blast
qed

theorem invalid_user_reported_witness:
  "dd_type (private_draft\<lparr>dd_to := [999, 7, 998]\<rparr>) = ''private'' \<and>
   passes_checks example_env (private_draft\<lparr>dd_to := [999, 7, 998]\<rparr>) initial_state \<and>
   iterates_set example_env [999, 7, 998] \<and>
   lookup_user example_env 999 (user_realm hamlet) = None \<and>
   set_order example_env [999, 7, 998] = [7, 998, 999] \<and>
   further_validated_draft_dict example_env (private_draft\<lparr>dd_to := [999, 7, 998]\<rparr>)
     hamlet initial_state =
     (Inl (JsonableError ''Invalid user ID 998''),
      log_call (GetUserProfilesByIds [7, 998, 999] (Realm 1)) (tick initial_state))"
proof -
  let ?d = "private_draft\<lparr>dd_to := [999, 7, 998]\<rparr>"
  have ty: "dd_type ?d = ''private''" and ne: "dd_to ?d \<noteq> []"
    by (simp_all add: private_draft_def)
  have pc: "passes_checks example_env ?d initial_state"
    by code_simp
  have it: "iterates_set example_env xs" for xs
    by (simp add: iterates_set_def example_env_def)
  have bad: "\<exists>i \<in> set (dd_to ?d). lookup_user example_env i (user_realm hamlet) = None"
    by (simp add: example_env_def)
  have order: "set_order example_env [999, 7, 998] = [7, 998, 999]"
    by (simp add: example_env_def)
  have str: "str_int 998 = ''998''"
    by code_simp
  from invalid_user_reported [OF ty ne pc it bad] obtain before i after where
    split: "[7, 998, 999] = before @ i # after" and
    ok: "\<forall>j \<in> set before. lookup_user example_env j (user_realm hamlet) \<noteq> None" and
    inv: "lookup_user example_env i (user_realm hamlet) = None" and
    res: "further_validated_draft_dict example_env ?d hamlet initial_state =
             (Inl (JsonableError (''Invalid user ID '' @ str_int i)),
              log_call (GetUserProfilesByIds [7, 998, 999] (user_realm hamlet)) (tick initial_state))"
    by (auto simp add: order)
  have "i = 998"
  proof (cases before)
    case Nil
    with split have "i = 7" by simp
    with inv show ?thesis by (simp add: example_env_def)
  next
    case (Cons a before')
    with split have a: "a = 7" and rest: "[998, 999] = before' @ i # after" by simp_all
    show ?thesis
    proof (cases before')
      case Nil
      with rest show ?thesis by simp
    next
      case (Cons b before'')
      with rest have "b = 998" by simp
      with Cons \<open>before = a # before'\<close> ok show ?thesis by (simp add: example_env_def)
    qed
  qed
  with res str have "further_validated_draft_dict example_env ?d hamlet initial_state =
     (Inl (JsonableError ''Invalid user ID 998''),
      log_call (GetUserProfilesByIds [7, 998, 999] (Realm 1)) (tick initial_state))"
    by (simp add: hamlet_def)
  moreover have "lookup_user example_env 999 (user_realm hamlet) = None"
    by (simp add: example_env_def)
  ultimately show ?thesis using ty pc it [of "[999, 7, 998]"] order by simp
qed

subsection \<open>Drafts without recipient\<close>

text \<open>
  C8. For a descriptor whose type is "" or whose type is "private" with an empty \<open>to\<close>
  list, normalization calls no recipient-resolution collaborator (the log of calls is
  unchanged); any record it yields has no recipient and the empty topic; and it does
  yield that record when the content check and the timestamp check are passed.
\<close>

theorem no_recipient_resolution:
  assumes "dd_type d = '''' \<or> (dd_type d = ''private'' \<and> dd_to d = [])"
  shows "calls (snd (further_validated_draft_dict e d u s)) = calls s \<and>
         (\<forall>v s'. further_validated_draft_dict e d u s = (Inr v, s') \<longrightarrow>
            vd_recipient v = None \<and> vd_topic v = []) \<and>
         (passes_checks e d s \<longrightarrow>
            further_validated_draft_dict e d u s =
              (Inr \<lparr>vd_recipient = None, vd_topic = [],
                    vd_content = truncate_body e (dd_content d),
                    vd_last_edit_time = timestamp_to_datetime e (normalized_timestamp e d s)\<rparr>,
               tick s))"
proof -
  from assms have ty: "dd_type d \<noteq> ''stream''" "dd_type d \<noteq> ''private'' \<or> dd_to d = []"
    by auto
  show ?thesis
    unfolding fvdd_other_any [OF ty]
    by (auto simp add: calls_tick passes_checks_def)
qed

theorem no_recipient_resolution_witness:
  "further_validated_draft_dict example_env (private_draft\<lparr>dd_to := []\<rparr>) hamlet initial_state =
     (Inr \<lparr>vd_recipient = None, vd_topic = [], vd_content = ''hi'',
           vd_last_edit_time = Datetime 1595479019\<rparr>,
      \<lparr>time_calls = 1, calls = [], draft_table = [], next_id = 1\<rparr>) \<and>
   further_validated_draft_dict example_env (stream_draft\<lparr>dd_type := [], dd_to := []\<rparr>)
     hamlet initial_state =
     (Inr \<lparr>vd_recipient = None, vd_topic = [], vd_content = ''hello'',
           vd_last_edit_time = Datetime (1595479019439159 / 1000000)\<rparr>,
      \<lparr>time_calls = 1, calls = [], draft_table = [], next_id = 1\<rparr>)"
proof -
  let ?p = "private_draft\<lparr>dd_to := []\<rparr>" and ?n = "stream_draft\<lparr>dd_type := [], dd_to := []\<rparr>"
  have ty: "dd_type ?p = '''' \<or> (dd_type ?p = ''private'' \<and> dd_to ?p = [])"
    "dd_type ?n = '''' \<or> (dd_type ?n = ''private'' \<and> dd_to ?n = [])"
    by (simp_all add: private_draft_def stream_draft_def)
  have pc: "passes_checks example_env ?p initial_state" "passes_checks example_env ?n initial_state"
    by code_simp+
  have vals:
    "truncate_body example_env (dd_content ?p) = ''hi''"
    "truncate_body example_env (dd_content ?n) = ''hello''"
    "timestamp_to_datetime example_env (normalized_timestamp example_env ?p initial_state) =
       Datetime 1595479019"
    "timestamp_to_datetime example_env (normalized_timestamp example_env ?n initial_state) =
       Datetime (1595479019439159 / 1000000)"
    "tick initial_state = \<lparr>time_calls = 1, calls = [], draft_table = [], next_id = 1\<rparr>"
    by code_simp+
  from no_recipient_resolution [OF ty(1), of example_env hamlet initial_state]
    no_recipient_resolution [OF ty(2), of example_env hamlet initial_state] pc
  show ?thesis
    unfolding vals by blast
qed

text \<open>
  C9. For a descriptor whose type is not "stream", the outcome of normalization does
  not depend on the input topic at all (so a null byte in it changes nothing); any
  record it yields has the empty topic; and, as long as the recipient deriver does not
  itself report that message, the error is never "Topic must not contain null bytes".
\<close>

theorem topic_ignored_unless_stream:
  assumes "dd_type d \<noteq> ''stream''"
  shows "further_validated_draft_dict e (d\<lparr>dd_topic := t\<rparr>) u s =
           further_validated_draft_dict e d u s \<and>
         (\<forall>v s'. further_validated_draft_dict e d u s = (Inr v, s') \<longrightarrow> vd_topic v = []) \<and>
         ((\<forall>users. recipient_for_user_profiles e users False None u
              \<noteq> Inl ''Topic must not contain null bytes'') \<longrightarrow>
          fst (further_validated_draft_dict e d u s) \<noteq>
            Inl (JsonableError ''Topic must not contain null bytes''))"
proof (intro conjI)
  show "further_validated_draft_dict e (d\<lparr>dd_topic := t\<rparr>) u s =
           further_validated_draft_dict e d u s"
    using assms by (simp add: further_validated_draft_dict_def Let_def time_time_call_def)
  show "\<forall>v s'. further_validated_draft_dict e d u s = (Inr v, s') \<longrightarrow> vd_topic v = []"
    using assms
    by (auto simp add: further_validated_draft_dict_def time_time_call_def Let_def
        get_user_profiles_by_ids_def recipient_for_user_profiles_call_def
        split: sum.splits if_splits)
  show "(\<forall>users. recipient_for_user_profiles e users False None u
              \<noteq> Inl ''Topic must not contain null bytes'') \<longrightarrow>
          fst (further_validated_draft_dict e d u s) \<noteq>
            Inl (JsonableError ''Topic must not contain null bytes'')"
  proof (intro impI notI)
    assume quiet: "\<forall>users. recipient_for_user_profiles e users False None u
              \<noteq> Inl ''Topic must not contain null bytes''"
      and res: "fst (further_validated_draft_dict e d u s) =
            Inl (JsonableError ''Topic must not contain null bytes'')"
    show False
    proof (cases "dd_type d = ''private'' \<and> dd_to d \<noteq> []")
      case False
      with assms have "dd_type d \<noteq> ''private'' \<or> dd_to d = []" by blast
      from fvdd_other_any [OF assms this, of e u s] res show False
        by (simp split: if_splits)
    next
      case True
      show False
      proof (cases "passes_checks e d s")
        case pc: True
        from fvdd_private [OF pc, of u] True res quiet show False
          by (auto split: sum.splits dest!: resolve_users_error)
      next
        case False
        then consider "has_null (truncate_body e (dd_content d))"
          | "\<not> has_null (truncate_body e (dd_content d))" "normalized_timestamp e d s < 0"
          by (auto simp: passes_checks_def)
        then show False
        proof cases
          case 1
          from fvdd_content_error [OF 1, of u s] res show False by simp
        next
          case 2
          from fvdd_timestamp_error [OF 2, of u] res show False by simp
        qed
      qed
    qed
  qed
qed

theorem topic_ignored_unless_stream_witness:
  "dd_type private_draft \<noteq> ''stream'' \<and>
   (\<forall>users. recipient_for_user_profiles example_env users False None hamlet
       \<noteq> Inl ''Topic must not contain null bytes'') \<and>
   further_validated_draft_dict example_env (private_draft\<lparr>dd_topic := [CHR 0x00]\<rparr>)
     hamlet initial_state =
     further_validated_draft_dict example_env private_draft hamlet initial_state \<and>
   fst (further_validated_draft_dict example_env (private_draft\<lparr>dd_topic := [CHR 0x00]\<rparr>)
     hamlet initial_state) =
     Inr \<lparr>vd_recipient = Some (Recipient 15), vd_topic = [], vd_content = ''hi'',
          vd_last_edit_time = Datetime 1595479019\<rparr>"
proof -
  have ty: "dd_type private_draft \<noteq> ''stream''"
    by (simp add: private_draft_def)
  have quiet: "\<forall>users. recipient_for_user_profiles example_env users False None hamlet
       \<noteq> Inl ''Topic must not contain null bytes''"
    by (simp add: example_env_def)
  have run: "fst (further_validated_draft_dict example_env private_draft hamlet initial_state) =
     Inr \<lparr>vd_recipient = Some (Recipient 15), vd_topic = [], vd_content = ''hi'',
          vd_last_edit_time = Datetime 1595479019\<rparr>"
    by code_simp
  from topic_ignored_unless_stream [OF ty, of example_env "[CHR 0x00]" hamlet initial_state]
  have "further_validated_draft_dict example_env (private_draft\<lparr>dd_topic := [CHR 0x00]\<rparr>)
     hamlet initial_state =
     further_validated_draft_dict example_env private_draft hamlet initial_state"
    by blast
  with ty quiet run show ?thesis by simp
qed

text \<open>
  C10. For a descriptor of type "", normalization does exactly what it does for the
  same descriptor with an empty \<open>to\<close> list: result and final state are equal, no
  collaborator is called for the ids, and any record it yields has no recipient and the
  empty topic.
\<close>

theorem empty_type_ignores_to:
  assumes "dd_type d = ''''"
  shows "further_validated_draft_dict e d u s =
           further_validated_draft_dict e (d\<lparr>dd_to := []\<rparr>) u s \<and>
         calls (snd (further_validated_draft_dict e d u s)) = calls s \<and>
         (\<forall>v s'. further_validated_draft_dict e d u s = (Inr v, s') \<longrightarrow>
            vd_recipient v = None \<and> vd_topic v = [])"
proof -
  from assms have ty: "dd_type d \<noteq> ''stream''" "dd_type d \<noteq> ''private'' \<or> dd_to d = []"
    by auto
  have "further_validated_draft_dict e d u s =
           further_validated_draft_dict e (d\<lparr>dd_to := []\<rparr>) u s"
    using assms by (simp add: further_validated_draft_dict_def Let_def time_time_call_def)
  moreover have "calls (snd (further_validated_draft_dict e d u s)) = calls s \<and>
         (\<forall>v s'. further_validated_draft_dict e d u s = (Inr v, s') \<longrightarrow>
            vd_recipient v = None \<and> vd_topic v = [])"
    unfolding fvdd_other_any [OF ty]
    by (auto simp add: calls_tick)
  ultimately show ?thesis by blast
qed

theorem empty_type_ignores_to_witness:
  "dd_type (stream_draft\<lparr>dd_type := [], dd_to := [999, 1]\<rparr>) = '''' \<and>
   lookup_user example_env 999 (user_realm hamlet) = None \<and>
   further_validated_draft_dict example_env (stream_draft\<lparr>dd_type := [], dd_to := [999, 1]\<rparr>)
     hamlet initial_state =
     further_validated_draft_dict example_env (stream_draft\<lparr>dd_type := [], dd_to := []\<rparr>)
       hamlet initial_state \<and>
   further_validated_draft_dict example_env (stream_draft\<lparr>dd_type := [], dd_to := [999, 1]\<rparr>)
     hamlet initial_state =
     (Inr \<lparr>vd_recipient = None, vd_topic = [], vd_content = ''hello'',
           vd_last_edit_time = Datetime (1595479019439159 / 1000000)\<rparr>,
      \<lparr>time_calls = 1, calls = [], draft_table = [], next_id = 1\<rparr>)"
proof -
  let ?d = "stream_draft\<lparr>dd_type := [], dd_to := [999, 1]\<rparr>"
  have ty: "dd_type ?d = ''''"
    by (simp add: stream_draft_def)
  have upd: "?d\<lparr>dd_to := []\<rparr> = stream_draft\<lparr>dd_type := [], dd_to := []\<rparr>"
    by simp
  have run: "further_validated_draft_dict example_env ?d hamlet initial_state =
     (Inr \<lparr>vd_recipient = None, vd_topic = [], vd_content = ''hello'',
           vd_last_edit_time = Datetime (1595479019439159 / 1000000)\<rparr>,
      \<lparr>time_calls = 1, calls = [], draft_table = [], next_id = 1\<rparr>)"
    by code_simp
  have inv: "lookup_user example_env 999 (user_realm hamlet) = None"
    by (simp add: example_env_def)
  from empty_type_ignores_to [OF ty, of example_env hamlet initial_state]
  have "further_validated_draft_dict example_env ?d hamlet initial_state =
     further_validated_draft_dict example_env (stream_draft\<lparr>dd_type := [], dd_to := []\<rparr>)
       hamlet initial_state"
    unfolding upd by blast
  with ty inv run show ?thesis by simp
qed

end
